theory Spec2Isabelle
  imports Complex_Main
begin

section \<open>JavaScript strings\<close>

text \<open>
  Strings are lists of characters. The model covers the ASCII range: the white space
  removed by \<open>String.prototype.trim\<close> and skipped by \<open>parseFloat\<close> is TAB, LF, VT, FF, CR
  and SPACE, and \<open>toLowerCase\<close> maps \<open>A\<close>..\<open>Z\<close> to \<open>a\<close>..\<open>z\<close>.
\<close>

definition is_space :: "char \<Rightarrow> bool" where
  "is_space c = (c \<in> set [CHR 0x09, CHR 0x0A, CHR 0x0B, CHR 0x0C, CHR 0x0D, CHR '' ''])"

definition trim :: "string \<Rightarrow> string" where
  "trim s = rev (dropWhile is_space (rev (dropWhile is_space s)))"

definition lower_char :: "char \<Rightarrow> char" where
  "lower_char c =
     (case map_of (zip ''ABCDEFGHIJKLMNOPQRSTUVWXYZ'' ''abcdefghijklmnopqrstuvwxyz'') c of
        None \<Rightarrow> c
      | Some d \<Rightarrow> d)"

definition toLowerCase :: "string \<Rightarrow> string" where
  "toLowerCase s = map lower_char s"

text \<open>
  \<open>s.replace(tok, '')\<close> with a string pattern: the leftmost occurrence of \<open>tok\<close> is
  removed, every later one stays.
\<close>

fun replace_first :: "string \<Rightarrow> string \<Rightarrow> string" where
  "replace_first tok [] = []"
| "replace_first tok (c # cs) =
     (if take (length tok) (c # cs) = tok then drop (length tok) (c # cs)
      else c # replace_first tok cs)"

section \<open>JavaScript numbers\<close>

text \<open>
  A Number is a binary64 value: not-a-number, an infinity, or a finite value, held as the
  rational it denotes. The sign of zero is not kept: the program observes numbers only
  through comparison, \<open>Math.min\<close>/\<open>Math.max\<close> against each other and conversion to a
  string, and \<open>String(-0)\<close> is \<open>"0"\<close>.
\<close>

datatype jsnum = NaN | PInf | NInf | Fin rat

definition pow2 :: "int \<Rightarrow> rat" where
  "pow2 k = (if 0 \<le> k then of_int (2 ^ nat k) else 1 / of_int (2 ^ nat (- k)))"

definition pow10 :: "int \<Rightarrow> rat" where
  "pow10 k = (if 0 \<le> k then of_int (10 ^ nat k) else 1 / of_int (10 ^ nat (- k)))"

function bitlen :: "int \<Rightarrow> int" where
  "bitlen n = (if n \<le> 0 then 0 else 1 + bitlen (n div 2))"
  by pat_completeness auto
termination
  by (relation "measure nat") auto

function declen :: "int \<Rightarrow> int" where
  "declen n = (if n < 10 then 1 else 1 + declen (n div 10))"
  by pat_completeness auto
termination
  by (relation "measure nat") auto

declare bitlen.simps [simp del]
declare declen.simps [simp del]

text \<open>\<open>ilog2 a\<close> is the \<open>e\<close> with \<open>2^e \<le> a < 2^(e+1)\<close>, for \<open>a > 0\<close>.\<close>

definition ilog2_small :: "rat \<Rightarrow> int \<Rightarrow> int" where
  "ilog2_small a l = (if a * pow2 l = 1 then - l else - l - 1)"

definition ilog2 :: "rat \<Rightarrow> int" where
  "ilog2 a =
     (if 1 \<le> a then bitlen \<lfloor>a\<rfloor> - 1 else ilog2_small a (bitlen \<lfloor>1 / a\<rfloor> - 1))"

text \<open>\<open>ilog10 a\<close> is the \<open>n\<close> with \<open>10^(n-1) \<le> a < 10^n\<close>, for \<open>a > 0\<close>.\<close>

definition ilog10_small :: "rat \<Rightarrow> int \<Rightarrow> int" where
  "ilog10_small a d = (if a * pow10 (d - 1) = 1 then 2 - d else 1 - d)"

definition ilog10 :: "rat \<Rightarrow> int" where
  "ilog10 a = (if 1 \<le> a then declen \<lfloor>a\<rfloor> else ilog10_small a (declen \<lfloor>1 / a\<rfloor>))"

text \<open>
  Rounding a non-negative rational to the nearest integer, ties to even: from its integer
  part \<open>n\<close> and its fraction \<open>r\<close>.
\<close>

definition round_pick :: "int \<Rightarrow> rat \<Rightarrow> int" where
  "round_pick n r =
     (if r < 1 / 2 then n
      else if 1 / 2 < r then n + 1
      else if even n then n else n + 1)"

definition round_even :: "rat \<Rightarrow> int" where
  "round_even q = round_pick \<lfloor>q\<rfloor> (q - of_int \<lfloor>q\<rfloor>)"

text \<open>
  \<open>fl x\<close> is the binary64 value of the real \<open>x\<close>: 53 significant bits, round to nearest,
  ties to even, exponents from \<open>-1022\<close> (below that the spacing stays \<open>2^-1074\<close>) to
  \<open>1023\<close> (a result of \<open>2^1024\<close> or more is an infinity). The exponent \<open>e\<close> is chosen
  first, then the significand \<open>m\<close> as a multiple of \<open>2^(e-52)\<close>, then the value.
\<close>

definition sign_inf :: "bool \<Rightarrow> jsnum" where
  "sign_inf neg = (if neg then NInf else PInf)"

definition fl_pack :: "bool \<Rightarrow> int \<Rightarrow> int \<Rightarrow> jsnum" where
  "fl_pack neg e m =
     (if 1023 < e \<or> (e = 1023 \<and> m = 2 ^ 53) then sign_inf neg
      else Fin ((if neg then - 1 else 1) * of_int m * pow2 (e - 52)))"

definition fl_exp :: "bool \<Rightarrow> rat \<Rightarrow> int \<Rightarrow> jsnum" where
  "fl_exp neg a e = fl_pack neg e (round_even (a * pow2 (52 - e)))"

definition fl :: "rat \<Rightarrow> jsnum" where
  "fl x = (if x = 0 then Fin 0 else fl_exp (x < 0) \<bar>x\<bar> (max (ilog2 \<bar>x\<bar>) (- 1022)))"

subsection \<open>Arithmetic\<close>

text \<open>
  The operations the program uses. A finite result is rounded by \<open>fl\<close>; the
  comparisons, \<open>Math.min\<close>, \<open>Math.max\<close> and \<open>Math.round\<close> are exact.
\<close>

fun js_add :: "jsnum \<Rightarrow> jsnum \<Rightarrow> jsnum" where
  "js_add (Fin a) (Fin b) = fl (a + b)"
| "js_add NaN y = NaN"
| "js_add x NaN = NaN"
| "js_add PInf NInf = NaN"
| "js_add NInf PInf = NaN"
| "js_add PInf y = PInf"
| "js_add x PInf = PInf"
| "js_add NInf y = NInf"
| "js_add x NInf = NInf"

fun is_neg :: "jsnum \<Rightarrow> bool" where
  "is_neg NInf = True"
| "is_neg (Fin a) = (a < 0)"
| "is_neg x = False"

fun is_inf :: "jsnum \<Rightarrow> bool" where
  "is_inf PInf = True"
| "is_inf NInf = True"
| "is_inf x = False"

fun fin_mul :: "jsnum \<Rightarrow> jsnum \<Rightarrow> jsnum" where
  "fin_mul (Fin a) (Fin b) = fl (a * b)"
| "fin_mul x y = NaN"

definition js_mul :: "jsnum \<Rightarrow> jsnum \<Rightarrow> jsnum" where
  "js_mul x y =
     (if x = NaN \<or> y = NaN then NaN
      else if is_inf x \<or> is_inf y
      then (if x = Fin 0 \<or> y = Fin 0 then NaN else sign_inf (is_neg x \<noteq> is_neg y))
      else fin_mul x y)"

text \<open>
  Division by a zero gives an infinity whose sign depends on the sign of the zero, which
  the model does not keep; the program divides by the constant \<open>1e4\<close> only.
\<close>

fun fin_div :: "jsnum \<Rightarrow> jsnum \<Rightarrow> jsnum" where
  "fin_div (Fin a) (Fin b) =
     (if b = 0 then (if a = 0 then NaN else sign_inf (a < 0)) else fl (a / b))"
| "fin_div x y = NaN"

definition js_div :: "jsnum \<Rightarrow> jsnum \<Rightarrow> jsnum" where
  "js_div x y =
     (if x = NaN \<or> y = NaN then NaN
      else if is_inf x then (if is_inf y then NaN else sign_inf (is_neg x \<noteq> is_neg y))
      else if is_inf y then Fin 0
      else fin_div x y)"

text \<open>\<open>Math.round\<close>: the nearest integer, a tie going up.\<close>

fun Math_round :: "jsnum \<Rightarrow> jsnum" where
  "Math_round (Fin a) = Fin (of_int \<lfloor>a + 1 / 2\<rfloor>)"
| "Math_round x = x"

fun js_le :: "jsnum \<Rightarrow> jsnum \<Rightarrow> bool" where
  "js_le (Fin a) (Fin b) = (a \<le> b)"
| "js_le NaN y = False"
| "js_le x NaN = False"
| "js_le NInf y = True"
| "js_le x PInf = True"
| "js_le PInf y = False"
| "js_le x NInf = False"

definition Math_max :: "jsnum \<Rightarrow> jsnum \<Rightarrow> jsnum" where
  "Math_max x y = (if x = NaN \<or> y = NaN then NaN else if js_le x y then y else x)"

definition Math_min :: "jsnum \<Rightarrow> jsnum \<Rightarrow> jsnum" where
  "Math_min x y = (if x = NaN \<or> y = NaN then NaN else if js_le x y then x else y)"

definition isNaN :: "jsnum \<Rightarrow> bool" where
  "isNaN x = (x = NaN)"

fun isFinite :: "jsnum \<Rightarrow> bool" where
  "isFinite (Fin a) = True"
| "isFinite x = False"

definition EPSILON :: jsnum where
  "EPSILON = Fin (pow2 (- 52))"

subsection \<open>parseFloat\<close>

definition digits :: string where
  "digits = ''0123456789''"

definition is_digit :: "char \<Rightarrow> bool" where
  "is_digit c = (c \<in> set digits)"

definition digit_val :: "char \<Rightarrow> nat" where
  "digit_val c = length (takeWhile (\<lambda>d. d \<noteq> c) digits)"

definition decimal_val :: "string \<Rightarrow> int" where
  "decimal_val ds = foldl (\<lambda>a c. 10 * a + int (digit_val c)) 0 ds"

text \<open>An optional sign at the head of a string: whether it is a minus, and what follows it.\<close>

fun sign_neg :: "string \<Rightarrow> bool" where
  "sign_neg [] = False"
| "sign_neg (c # r) = (c = CHR ''-'')"

fun sign_rest :: "string \<Rightarrow> string" where
  "sign_rest [] = []"
| "sign_rest (c # r) = (if c = CHR ''-'' \<or> c = CHR ''+'' then r else c # r)"

text \<open>
  The value of an exponent part (\<open>e\<close> or \<open>E\<close>, an optional sign, digits) at the head of
  a string; \<open>0\<close> when there is none: an \<open>e\<close> with no digit after it is not part of the
  literal.
\<close>

definition exponent_digits :: "bool \<Rightarrow> string \<Rightarrow> int" where
  "exponent_digits neg ds =
     (if ds = [] then 0 else if neg then - decimal_val ds else decimal_val ds)"

fun exponent_val :: "string \<Rightarrow> int" where
  "exponent_val [] = 0"
| "exponent_val (c # r) =
     (if c = CHR ''e'' \<or> c = CHR ''E''
      then exponent_digits (sign_neg r) (takeWhile is_digit (sign_rest r))
      else 0)"

text \<open>The digits of a fraction part (a point, then digits) at the head of a string, and what follows it.\<close>

fun fraction_digits :: "string \<Rightarrow> string" where
  "fraction_digits [] = []"
| "fraction_digits (c # r) = (if c = CHR ''.'' then takeWhile is_digit r else [])"

fun fraction_rest :: "string \<Rightarrow> string" where
  "fraction_rest [] = []"
| "fraction_rest (c # r) = (if c = CHR ''.'' then dropWhile is_digit r else c # r)"

text \<open>
  \<open>parseFloat\<close>: leading white space is skipped, the longest prefix that is a decimal
  literal (a sign, then \<open>Infinity\<close> or digits with an optional fraction and exponent) is
  read and its value rounded to binary64; with no such prefix the result is \<open>NaN\<close>.
\<close>

definition parse_decimal :: "bool \<Rightarrow> string \<Rightarrow> string \<Rightarrow> string \<Rightarrow> jsnum" where
  "parse_decimal neg ip fp r =
     (if ip = [] \<and> fp = [] then NaN
      else fl ((if neg then - 1 else 1) * of_int (decimal_val (ip @ fp))
               * pow10 (exponent_val r - int (length fp))))"

definition parse_signed :: "bool \<Rightarrow> string \<Rightarrow> jsnum" where
  "parse_signed neg u =
     (if take 8 u = ''Infinity'' then sign_inf neg
      else parse_decimal neg (takeWhile is_digit u)
             (fraction_digits (dropWhile is_digit u)) (fraction_rest (dropWhile is_digit u)))"

definition parseFloat :: "string \<Rightarrow> jsnum" where
  "parseFloat s =
     parse_signed (sign_neg (dropWhile is_space s)) (sign_rest (dropWhile is_space s))"

subsection \<open>Number to string\<close>

function dec_string :: "int \<Rightarrow> string" where
  "dec_string n =
     (if n < 10 then [digits ! nat n]
      else dec_string (n div 10) @ [digits ! nat (n mod 10)])"
  by pat_completeness auto
termination
  by (relation "measure nat") auto

declare dec_string.simps [simp del]

text \<open>
  The digits of \<open>Number::toString\<close> for a positive \<open>a\<close>: integers \<open>s\<close> and \<open>n\<close> with \<open>s\<close>
  of \<open>k\<close> digits, \<open>s * 10^(n-k)\<close> rounding to \<open>a\<close>, and \<open>k\<close> as small as possible; of two
  such \<open>s\<close> the one nearer to \<open>a\<close>. With \<open>10^(n0-1) \<le> a < 10^n0\<close>, the candidates for
  \<open>k\<close> digits are the integer part of \<open>a / 10^(n0-k)\<close> and its successor; a successor
  that reaches \<open>10^k\<close> is the digit \<open>1\<close> with \<open>n0 + 1\<close>. The lengths \<open>k\<close> are tried in the
  order of the list (17 digits always distinguish a binary64 value).
\<close>

definition candidate :: "rat \<Rightarrow> int \<Rightarrow> int \<Rightarrow> int" where
  "candidate a n0 k = \<lfloor>a / pow10 (n0 - k)\<rfloor>"

definition rounds_to :: "rat \<Rightarrow> int \<Rightarrow> int \<Rightarrow> int \<Rightarrow> bool" where
  "rounds_to a n0 k s = (fl (of_int s * pow10 (n0 - k)) = Fin a)"

definition nearer :: "rat \<Rightarrow> rat \<Rightarrow> int \<Rightarrow> int" where
  "nearer a sc lo =
     (if a - of_int lo * sc < of_int (lo + 1) * sc - a then lo
      else if of_int (lo + 1) * sc - a < a - of_int lo * sc then lo + 1
      else if even lo then lo else lo + 1)"

definition pick_digits :: "rat \<Rightarrow> int \<Rightarrow> int \<Rightarrow> int \<Rightarrow> int" where
  "pick_digits a n0 k lo =
     (if rounds_to a n0 k lo \<and> rounds_to a n0 k (lo + 1) then nearer a (pow10 (n0 - k)) lo
      else if rounds_to a n0 k lo then lo else lo + 1)"

definition carry :: "int \<Rightarrow> int \<Rightarrow> int \<Rightarrow> int \<times> int" where
  "carry n0 k s = (if s = 10 ^ nat k then (1, n0 + 1) else (s, n0))"

fun shortest :: "rat \<Rightarrow> int \<Rightarrow> int list \<Rightarrow> int \<times> int" where
  "shortest a n0 [] = (candidate a n0 17, n0)"
| "shortest a n0 (k # ks) =
     (if rounds_to a n0 k (candidate a n0 k) \<or> rounds_to a n0 k (candidate a n0 k + 1)
      then carry n0 k (pick_digits a n0 k (candidate a n0 k))
      else shortest a n0 ks)"

definition digit_counts :: "int list" where
  "digit_counts = [1, 2, 3, 4, 5, 6, 7, 8, 9, 10, 11, 12, 13, 14, 15, 16, 17]"

text \<open>The notation: plain decimal for \<open>-6 < n \<le> 21\<close>, exponential otherwise.\<close>

definition fixed_notation :: "string \<Rightarrow> int \<Rightarrow> int \<Rightarrow> string" where
  "fixed_notation ds n k =
     (if k \<le> n then ds @ replicate (nat (n - k)) (CHR ''0'')
      else if 0 < n then take (nat n) ds @ ''.'' @ drop (nat n) ds
      else ''0.'' @ replicate (nat (- n)) (CHR ''0'') @ ds)"

definition exponent_notation :: "string \<Rightarrow> int \<Rightarrow> int \<Rightarrow> string" where
  "exponent_notation ds e k =
     (if k = 1 then ds else take 1 ds @ ''.'' @ drop 1 ds)
     @ ''e'' @ (if e < 0 then ''-'' else ''+'') @ dec_string \<bar>e\<bar>"

definition format_digits :: "string \<Rightarrow> int \<Rightarrow> string" where
  "format_digits ds n =
     (if - 6 < n \<and> n \<le> 21 then fixed_notation ds n (int (length ds))
      else exponent_notation ds (n - 1) (int (length ds)))"

fun format_pair :: "int \<times> int \<Rightarrow> string" where
  "format_pair (s, n) = format_digits (dec_string s) n"

definition pos_string :: "rat \<Rightarrow> string" where
  "pos_string a = format_pair (shortest a (ilog10 a) digit_counts)"

text \<open>\<open>String(x)\<close> for a Number \<open>x\<close>.\<close>

fun numToString :: "jsnum \<Rightarrow> string" where
  "numToString NaN = ''NaN''"
| "numToString PInf = ''Infinity''"
| "numToString NInf = ''-Infinity''"
| "numToString (Fin a) =
     (if a = 0 then ''0'' else if a < 0 then ''-'' @ pos_string (- a) else pos_string a)"


section \<open>The document\<close>

text \<open>
  What the program reads of an element: its tag, whether it is an \<open>HTMLElement\<close>, its
  \<open>id\<close>, its classes, whether it carries a \<open>data-for\<close> attribute, the three properties
  of its computed style that the visibility test reads, and the properties of an input
  control (\<open>type\<close>, \<open>max\<close>, \<open>min\<close>, \<open>value\<close> as the strings the DOM returns, empty when
  unset, and \<open>checked\<close>). The \<open>type\<close> that the selector tests and the \<open>type\<close> that the
  program reads are one field. A node is a text node or an element with its children.
\<close>

record element =
  tag :: string
  is_html :: bool
  id_attr :: string
  classes :: "string list"
  data_for :: bool
  display :: string
  visibility :: string
  opacity :: string
  type_prop :: string
  max_prop :: string
  min_prop :: string
  value_prop :: string
  checked_prop :: bool

datatype node = Text string | Elem element "node list"

text \<open>
  The document is its root node. An element is referred to by its path: the child indices
  that lead to it from the root. \<open>get_at\<close> reads the node at a path, \<open>update_at\<close> changes
  the element there, \<open>paths\<close> lists the elements below a node in document order, and
  \<open>chain\<close> is the element at a path followed by its \<open>parentElement\<close>s up to the root.
\<close>

fun get_at :: "nat list \<Rightarrow> node \<Rightarrow> node option" where
  "get_at [] n = Some n"
| "get_at (i # p) (Text s) = None"
| "get_at (i # p) (Elem e cs) = (if i < length cs then get_at p (cs ! i) else None)"

fun update_at :: "nat list \<Rightarrow> (element \<Rightarrow> element) \<Rightarrow> node \<Rightarrow> node" where
  "update_at p f (Text s) = Text s"
| "update_at [] f (Elem e cs) = Elem (f e) cs"
| "update_at (i # p) f (Elem e cs) =
     (if i < length cs then Elem e (cs[i := update_at p f (cs ! i)]) else Elem e cs)"

fun paths :: "nat list \<Rightarrow> node \<Rightarrow> nat list list"
  and paths_list :: "nat list \<Rightarrow> nat \<Rightarrow> node list \<Rightarrow> nat list list" where
  "paths p (Text s) = []"
| "paths p (Elem e cs) = p # paths_list p 0 cs"
| "paths_list p i [] = []"
| "paths_list p i (c # cs) = paths (p @ [i]) c @ paths_list p (Suc i) cs"

fun down :: "node \<Rightarrow> nat list \<Rightarrow> node list" where
  "down n [] = [n]"
| "down (Text s) (i # p) = [Text s]"
| "down (Elem e cs) (i # p) = Elem e cs # (if i < length cs then down (cs ! i) p else [])"

definition chain :: "node \<Rightarrow> nat list \<Rightarrow> node list" where
  "chain doc p = rev (down doc p)"

fun textContent :: "node \<Rightarrow> string" where
  "textContent (Text s) = s"
| "textContent (Elem e cs) = concat (map textContent cs)"

text \<open>The selectors the program uses, as predicates on a node.\<close>

fun has_id :: "string \<Rightarrow> node \<Rightarrow> bool" where
  "has_id i (Text s) = False"
| "has_id i (Elem e cs) = (id_attr e = i)"

fun has_class :: "string \<Rightarrow> node \<Rightarrow> bool" where
  "has_class c (Text s) = False"
| "has_class c (Elem e cs) = (c \<in> set (classes e))"

fun has_tag :: "string \<Rightarrow> node \<Rightarrow> bool" where
  "has_tag t (Text s) = False"
| "has_tag t (Elem e cs) = (tag e = t)"

fun instanceof_HTMLElement :: "node \<Rightarrow> bool" where
  "instanceof_HTMLElement (Text s) = False"
| "instanceof_HTMLElement (Elem e cs) = is_html e"

fun instanceof_HTMLInputElement :: "node \<Rightarrow> bool" where
  "instanceof_HTMLInputElement (Text s) = False"
| "instanceof_HTMLInputElement (Elem e cs) = (is_html e \<and> tag e = ''input'')"

text \<open>
  \<open>input[type="range"], input[type="checkbox"], input[type="number"]:not([data-for])\<close>
\<close>

fun control_selector :: "node \<Rightarrow> bool" where
  "control_selector (Text s) = False"
| "control_selector (Elem e cs) =
     (tag e = ''input'' \<and>
      (type_prop e = ''range'' \<or> type_prop e = ''checkbox'' \<or>
       (type_prop e = ''number'' \<and> \<not> data_for e)))"

text \<open>Whether the node at a path satisfies a selector.\<close>

fun holds :: "(node \<Rightarrow> bool) \<Rightarrow> node option \<Rightarrow> bool" where
  "holds sel None = False"
| "holds sel (Some n) = sel n"

definition sel_at :: "(node \<Rightarrow> bool) \<Rightarrow> node \<Rightarrow> nat list \<Rightarrow> bool" where
  "sel_at sel doc p = holds sel (get_at p doc)"

text \<open>\<open>document.getElementById\<close>: the first element of the document with the id.\<close>

definition getElementById :: "string \<Rightarrow> node \<Rightarrow> nat list option" where
  "getElementById i doc = find (sel_at (has_id i) doc) (paths [] doc)"

text \<open>
  \<open>e.querySelectorAll\<close>: the matching descendants of the element at the path, in
  document order.
\<close>

fun below :: "nat list \<Rightarrow> node option \<Rightarrow> nat list list" where
  "below p None = []"
| "below p (Some n) = tl (paths p n)"

definition querySelectorAll :: "(node \<Rightarrow> bool) \<Rightarrow> node \<Rightarrow> nat list \<Rightarrow> nat list list" where
  "querySelectorAll sel doc p = filter (sel_at sel doc) (below p (get_at p doc))"

text \<open>\<open>e.querySelector\<close>: the first matching descendant of an element.\<close>

fun node_at :: "node \<Rightarrow> nat list option \<Rightarrow> node option" where
  "node_at n None = None"
| "node_at n (Some q) = get_at q n"

definition querySelector :: "(node \<Rightarrow> bool) \<Rightarrow> node \<Rightarrow> node option" where
  "querySelector sel n = node_at n (find (sel_at sel n) (tl (paths [] n)))"

text \<open>\<open>e.closest\<close>: the element itself or its nearest ancestor that matches.\<close>

definition closest :: "(node \<Rightarrow> bool) \<Rightarrow> node \<Rightarrow> nat list \<Rightarrow> node option" where
  "closest sel doc p = find sel (chain doc p)"

section \<open>Enumerating the sampler parameters\<close>

text \<open>\<open>a || b\<close> on values that are an element or null.\<close>

fun or_else :: "'a option \<Rightarrow> 'a option \<Rightarrow> 'a option" where
  "or_else None b = b"
| "or_else (Some x) b = Some x"

text \<open>
  The test \<open>getTitleParent\<close> makes of a candidate: it is an \<open>HTMLElement\<close> and its
  trimmed text is not empty.
\<close>

fun titled :: "node option \<Rightarrow> bool" where
  "titled None = False"
| "titled (Some n) = (instanceof_HTMLElement n \<and> trim (textContent n) \<noteq> [])"

definition title_in :: "node \<Rightarrow> node option" where
  "title_in parent =
     (if titled (querySelector (has_class ''range-block-title'') parent)
      then querySelector (has_class ''range-block-title'') parent
      else if titled (querySelector (has_tag ''small'') parent)
      then querySelector (has_tag ''small'') parent
      else if titled (querySelector (has_class ''checkbox_label'') parent)
      then querySelector (has_class ''checkbox_label'') parent
      else Some parent)"

fun title_of :: "node option \<Rightarrow> node option" where
  "title_of None = None"
| "title_of (Some parent) = (if \<not> instanceof_HTMLElement parent then None else title_in parent)"

definition getTitleParent :: "node \<Rightarrow> nat list \<Rightarrow> node option" where
  "getTitleParent doc element =
     title_of
       (or_else (closest (has_class ''range-block'') doc element)
         (or_else (closest (has_tag ''label'') doc element)
           (or_else (closest (has_tag ''h4'') doc element)
             (closest (has_tag ''div'') doc element))))"

text \<open>
  \<open>hasVisibleAncestor\<close>, on the chain that starts at the element and follows
  \<open>parentElement\<close>: the loop ends with \<open>true\<close> at the end of the chain, at a node that is
  not an \<open>HTMLElement\<close> and at the stop element, and with \<open>false\<close> at a hidden element.
\<close>

fun hasVisibleAncestor :: "node list \<Rightarrow> string \<Rightarrow> bool" where
  "hasVisibleAncestor [] stopAt = True"
| "hasVisibleAncestor (Text s # up) stopAt = True"
| "hasVisibleAncestor (Elem e cs # up) stopAt =
     (if \<not> is_html e \<or> id_attr e = stopAt then True
      else if display e = ''none'' \<or> visibility e = ''hidden'' \<or> opacity e = ''0''
      then False
      else hasVisibleAncestor up stopAt)"

definition isVisible :: "node \<Rightarrow> nat list \<Rightarrow> bool" where
  "isVisible doc p =
     (sel_at instanceof_HTMLElement doc p \<and>
      hasVisibleAncestor (chain doc p) ''ai_response_configuration'')"

definition sanitizeId :: "string \<Rightarrow> string" where
  "sanitizeId i =
     replace_first ''oai_''
       (replace_first ''openai_''
         (replace_first ''_novel''
           (replace_first ''_openai''
             (replace_first ''_textgenerationwebui''
               (replace_first ''_counter'' i)))))"

text \<open>
  \<open>roundToPrecision\<close> with its default precision \<open>1e4\<close>. The argument is a Number; it is
  converted to a string and parsed again, a result that is \<open>NaN\<close> or zero is replaced by
  \<open>0\<close> (the \<open>|| 0\<close> of the program), and the outcome is scaled, rounded and scaled back.
\<close>

definition or_zero :: "jsnum \<Rightarrow> jsnum" where
  "or_zero x = (if x = NaN \<or> x = Fin 0 then Fin 0 else x)"

definition round_scaled :: "jsnum \<Rightarrow> jsnum \<Rightarrow> jsnum" where
  "round_scaled num precision =
     js_div (Math_round (js_mul (js_add num EPSILON) precision)) precision"

definition roundToPrecision :: "jsnum \<Rightarrow> jsnum" where
  "roundToPrecision num = round_scaled (or_zero (parseFloat (numToString num))) (Fin 10000)"

text \<open>
  A sampler parameter. The name is absent when no title element was found
  (\<open>undefined\<close> in the program); the control is the path of the input element.
\<close>

record SamplerParameter =
  sp_id :: string
  sp_name :: "string option"
  sp_max :: jsnum
  sp_min :: jsnum
  sp_value :: jsnum
  sp_checked :: bool
  sp_type :: string
  sp_control :: "nat list"

definition make_sampler :: "node \<Rightarrow> nat list \<Rightarrow> element \<Rightarrow> SamplerParameter" where
  "make_sampler doc control e =
     \<lparr> sp_id = sanitizeId (id_attr e),
       sp_name = map_option (\<lambda>n. trim (textContent n)) (getTitleParent doc control),
       sp_max = roundToPrecision (parseFloat (max_prop e)),
       sp_min = roundToPrecision (parseFloat (min_prop e)),
       sp_value = roundToPrecision (parseFloat (value_prop e)),
       sp_checked = checked_prop e,
       sp_type = type_prop e,
       sp_control = control \<rparr>"

text \<open>\<open>!s\<close> for a value that is a string or \<open>undefined\<close>.\<close>

fun no_text :: "string option \<Rightarrow> bool" where
  "no_text None = True"
| "no_text (Some t) = (t = [])"

text \<open>
  The loop over the selected controls. \<open>visit\<close> is its body for the control at a path,
  given the node found there: the empty list where the program continues with the next
  control, the new parameter where it pushes one. \<open>collect\<close> is the loop.
\<close>

definition push_sampler :: "SamplerParameter \<Rightarrow> SamplerParameter list" where
  "push_sampler sampler = (if sp_id sampler = [] \<or> no_text (sp_name sampler) then [] else [sampler])"

fun visit :: "node \<Rightarrow> nat list \<Rightarrow> node option \<Rightarrow> SamplerParameter list" where
  "visit doc control None = []"
| "visit doc control (Some (Text s)) = []"
| "visit doc control (Some (Elem e cs)) =
     (if \<not> instanceof_HTMLInputElement (Elem e cs) then []
      else if closest (has_id ''openai_settings'') doc control \<noteq> None then []
      else push_sampler (make_sampler doc control e))"

fun collect :: "node \<Rightarrow> nat list list \<Rightarrow> SamplerParameter list" where
  "collect doc [] = []"
| "collect doc (control # rest) = visit doc control (get_at control doc) @ collect doc rest"

definition rangeSliders :: "node \<Rightarrow> nat list \<Rightarrow> nat list list" where
  "rangeSliders doc leftPanel =
     filter (isVisible doc) (querySelectorAll control_selector doc leftPanel)"

fun from_panel :: "node \<Rightarrow> nat list option \<Rightarrow> SamplerParameter list" where
  "from_panel doc None = []"
| "from_panel doc (Some leftPanel) =
     (if \<not> sel_at instanceof_HTMLElement doc leftPanel then []
      else collect doc (rangeSliders doc leftPanel))"

definition enumerateSamplerParameters :: "node \<Rightarrow> SamplerParameter list" where
  "enumerateSamplerParameters doc = from_panel doc (getElementById ''left-nav-panel'' doc)"

section \<open>The command handlers\<close>

text \<open>
  The argument values a handler can be called with: \<open>undefined\<close>, \<open>null\<close>, a boolean, a
  Number, a string, or an object. \<open>truthy v\<close> is what \<open>!v\<close> negates.
\<close>

datatype jsval = JUndefined | JNull | JBool bool | JNum jsnum | JStr string | JObject

fun truthy :: "jsval \<Rightarrow> bool" where
  "truthy JUndefined = False"
| "truthy JNull = False"
| "truthy (JBool b) = b"
| "truthy (JNum x) = (x \<noteq> NaN \<and> x \<noteq> Fin 0)"
| "truthy (JStr s) = (s \<noteq> [])"
| "truthy JObject = True"

text \<open>
  An exception: an \<open>Error\<close> with its message, or the \<open>TypeError\<close> of a method call on
  \<open>undefined\<close>.
\<close>

datatype error = Error string | TypeError

text \<open>
  The page: the document and the events dispatched so far, each with its target, its
  type and its \<open>bubbles\<close> flag.
\<close>

record event =
  ev_target :: "nat list"
  ev_type :: string
  ev_bubbles :: bool

record page =
  document :: node
  dispatched :: "event list"

text \<open>
  \<open>list.find(p => p.name.toLowerCase() === name || p.id.toLowerCase() === name)\<close>: the
  first parameter, in the order of the list, for which the test holds.
\<close>

fun find_parameter :: "string \<Rightarrow> SamplerParameter list \<Rightarrow> error + SamplerParameter option" where
  "find_parameter name [] = Inr None"
| "find_parameter name (p # ps) =
     (case sp_name p of
        None \<Rightarrow> Inl TypeError
      | Some n \<Rightarrow>
          if toLowerCase n = name \<or> toLowerCase (sp_id p) = name then Inr (Some p)
          else find_parameter name ps)"

definition not_found :: "string \<Rightarrow> error" where
  "not_found name = Error (''Parameter '' @ [CHR 0x22] @ name @ [CHR 0x22] @ '' not found.'')"


text \<open>
  The three effects of \<open>sampler-set\<close> on the page. An assignment stores the value in the
  control as given.
\<close>

definition set_checked :: "nat list \<Rightarrow> bool \<Rightarrow> page \<Rightarrow> page" where
  "set_checked c b st = st\<lparr>document := update_at c (\<lambda>e. e\<lparr>checked_prop := b\<rparr>) (document st)\<rparr>"

definition set_value :: "nat list \<Rightarrow> string \<Rightarrow> page \<Rightarrow> page" where
  "set_value c v st = st\<lparr>document := update_at c (\<lambda>e. e\<lparr>value_prop := v\<rparr>) (document st)\<rparr>"

definition dispatchEvent :: "nat list \<Rightarrow> string \<Rightarrow> bool \<Rightarrow> page \<Rightarrow> page" where
  "dispatchEvent c t b st =
     st\<lparr>dispatched := dispatched st @ [\<lparr>ev_target = c, ev_type = t, ev_bubbles = b\<rparr>]\<rparr>"

text \<open>
  The callback of \<open>sampler-set\<close>. \<open>isTrueBoolean\<close> is the host application's test for a
  string that means true, a parameter here; the handler returns its result, an error
  where the program throws, and the page it leaves.
\<close>

definition sampler_set ::
  "(string \<Rightarrow> bool) \<Rightarrow> jsval \<Rightarrow> jsval \<Rightarrow> page \<Rightarrow> (error + string) \<times> page" where
  "sampler_set isTrueBoolean name val st =
     (if \<not> truthy name then (Inl (Error ''Parameter name is required.''), st)
      else case name of
        JStr s \<Rightarrow>
          (let name' = toLowerCase (trim s)
           in case find_parameter name' (enumerateSamplerParameters (document st)) of
                Inl e \<Rightarrow> (Inl e, st)
              | Inr None \<Rightarrow> (Inl (not_found name'), st)
              | Inr (Some parameter) \<Rightarrow>
                  if \<not> truthy val then (Inl (Error ''Value is required.''), st)
                  else (case val of
                    JStr v \<Rightarrow>
                      if sp_type parameter = ''checkbox''
                      then (Inr [],
                            dispatchEvent (sp_control parameter) ''input'' True
                              (set_checked (sp_control parameter) (isTrueBoolean v) st))
                      else let number = parseFloat v
                           in if isNaN number \<or> \<not> isFinite number
                              then (Inl (Error ''Value must be convertible to a finite number.''), st)
                              else let clamped = Math_min (Math_max number (sp_min parameter))
                                                   (sp_max parameter)
                                   in (Inr [],
                                       dispatchEvent (sp_control parameter) ''input'' True
                                         (set_value (sp_control parameter) (numToString clamped) st))
                  | _ \<Rightarrow> (Inl (Error ''Value must be a string.''), st)))
      | _ \<Rightarrow> (Inl (Error ''Parameter name must be a string.''), st))"

section \<open>Notions used to state the properties\<close>

text \<open>
  The test of the lookup: the lowercased name or the lowercased id of the parameter is
  the given string.
\<close>

definition matches :: "string \<Rightarrow> SamplerParameter \<Rightarrow> bool" where
  "matches name p =
     ((case sp_name p of None \<Rightarrow> False | Some n \<Rightarrow> toLowerCase n = name) \<or>
      toLowerCase (sp_id p) = name)"



text \<open>The kinds of parameter: a checkbox is boolean, a slider or a number input numeric.\<close>

definition numeric_kind :: "SamplerParameter \<Rightarrow> bool" where
  "numeric_kind p = (sp_type p = ''range'' \<or> sp_type p = ''number'')"


text \<open>The tokens \<open>sanitizeId\<close> removes, in its order.\<close>

definition strip_tokens :: "string list" where
  "strip_tokens = [''_counter'', ''_textgenerationwebui'', ''_openai'', ''_novel'', ''openai_'', ''oai_'']"

section \<open>A sample page\<close>

text \<open>
  A settings panel with a slider titled \<open>Temperature\<close> of range 0 to 2, its numeric
  counter (a secondary display), a checkbox labelled \<open>Stream\<close>, a slider whose title
  \<open>temp\<close> is the id of the first slider, a slider without bounds, a checkbox without an
  id, a hidden slider, and a slider inside the settings of the other provider.
\<close>

definition el :: "string \<Rightarrow> element" where
  "el t = \<lparr> tag = t, is_html = True, id_attr = [], classes = [], data_for = False,
            display = ''block'', visibility = ''visible'', opacity = ''1'',
            type_prop = [], max_prop = [], min_prop = [], value_prop = [],
            checked_prop = False \<rparr>"

definition slider :: "string \<Rightarrow> string \<Rightarrow> string \<Rightarrow> string \<Rightarrow> node" where
  "slider i lo hi v =
     Elem ((el ''input'')\<lparr>id_attr := i, type_prop := ''range'', min_prop := lo,
                           max_prop := hi, value_prop := v\<rparr>) []"

definition range_block :: "string \<Rightarrow> node \<Rightarrow> node" where
  "range_block title control =
     Elem ((el ''div'')\<lparr>classes := [''range-block'']\<rparr>)
       [Elem ((el ''div'')\<lparr>classes := [''range-block-title'']\<rparr>) [Text title], control]"

definition sample_doc :: node where
  "sample_doc =
     Elem (el ''html'')
       [Elem (el ''body'')
          [Elem ((el ''div'')\<lparr>id_attr := ''left-nav-panel''\<rparr>)
             [Elem ((el ''div'')\<lparr>id_attr := ''ai_response_configuration''\<rparr>)
                [range_block '' Temperature '' (slider ''temp_textgenerationwebui'' ''0'' ''2'' ''1''),
                 Elem ((el ''input'')\<lparr>id_attr := ''temp_counter_textgenerationwebui'',
                                        type_prop := ''number'', data_for := True,
                                        value_prop := ''1''\<rparr>) [],
                 Elem ((el ''label'')\<lparr>classes := [''checkbox_label'']\<rparr>)
                   [Elem ((el ''input'')\<lparr>id_attr := ''stream_toggle'', type_prop := ''checkbox'',
                                          value_prop := ''on'', checked_prop := True\<rparr>) [],
                    Text ''Stream''],
                 range_block ''temp'' (slider ''top_k_textgenerationwebui'' ''0'' ''2'' ''2''),
                 range_block ''Seed'' (slider ''seed_textgenerationwebui'' [] [] ''1''),
                 Elem (el ''label'')
                   [Elem ((el ''input'')\<lparr>type_prop := ''checkbox'', value_prop := ''on''\<rparr>) [],
                    Text ''Unnamed''],
                 Elem ((el ''div'')\<lparr>display := ''none''\<rparr>)
                   [range_block ''Hidden'' (slider ''hidden_textgenerationwebui'' ''0'' ''2'' ''1'')],
                 Elem ((el ''div'')\<lparr>id_attr := ''openai_settings''\<rparr>)
                   [range_block ''Top P'' (slider ''top_p_openai'' ''0'' ''2'' ''1'')]]]]]"

definition sample_page :: page where
  "sample_page = \<lparr> document = sample_doc, dispatched = [] \<rparr>"

text \<open>The parameters of the sample page, in the order of the document.\<close>

definition sample_params :: "SamplerParameter list" where
  "sample_params =
     [\<lparr>sp_id = ''temp'', sp_name = Some ''Temperature'', sp_max = Fin 2, sp_min = Fin 0,
       sp_value = Fin 1, sp_checked = False, sp_type = ''range'', sp_control = [0, 0, 0, 0, 1]\<rparr>,
      \<lparr>sp_id = ''stream_toggle'', sp_name = Some ''Stream'', sp_max = Fin 0, sp_min = Fin 0,
       sp_value = Fin 0, sp_checked = True, sp_type = ''checkbox'', sp_control = [0, 0, 0, 2, 0]\<rparr>,
      \<lparr>sp_id = ''top_k'', sp_name = Some ''temp'', sp_max = Fin 2, sp_min = Fin 0,
       sp_value = Fin 2, sp_checked = False, sp_type = ''range'', sp_control = [0, 0, 0, 3, 1]\<rparr>,
      \<lparr>sp_id = ''seed'', sp_name = Some ''Seed'', sp_max = Fin 0, sp_min = Fin 0,
       sp_value = Fin 1, sp_checked = False, sp_type = ''range'', sp_control = [0, 0, 0, 4, 1]\<rparr>]"


text \<open>An instance of the host's test for a string that means true.\<close>

definition sample_isTrueBoolean :: "string \<Rightarrow> bool" where
  "sample_isTrueBoolean s = (toLowerCase (trim s) \<in> set [''on'', ''true'', ''1''])"

section \<open>What the enumerator returns\<close>

lemma toLowerCase_Nil [simp]: "toLowerCase n = [] \<longleftrightarrow> n = []"
  by (simp add: toLowerCase_def)

lemma push_sampler_mem:
  "p \<in> set (push_sampler s) \<longleftrightarrow> p = s \<and> sp_id s \<noteq> [] \<and> \<not> no_text (sp_name s)"
  by (auto simp: push_sampler_def)

lemma visit_mem:
  assumes "p \<in> set (visit doc c n)"
  shows "\<exists>e cs. n = Some (Elem e cs) \<and> is_html e \<and> tag e = ''input'' \<and>
           closest (has_id ''openai_settings'') doc c = None \<and>
           p = make_sampler doc c e \<and> sp_id p \<noteq> [] \<and> \<not> no_text (sp_name p)"
proof (cases n)
  case None
  with assms show ?thesis by simp
next
  case (Some m)
  show ?thesis
  proof (cases m)
    case (Text s)
    with Some assms show ?thesis by simp
  next
    case (Elem e cs)
    with Some assms show ?thesis
      by (auto simp: push_sampler_mem split: if_splits)
  qed
qed

lemma collect_mem:
  "p \<in> set (collect doc ls) \<Longrightarrow>
     \<exists>c e cs. c \<in> set ls \<and> get_at c doc = Some (Elem e cs) \<and> is_html e \<and> tag e = ''input'' \<and>
       closest (has_id ''openai_settings'') doc c = None \<and> p = make_sampler doc c e \<and>
       sp_id p \<noteq> [] \<and> \<not> no_text (sp_name p)"
proof (induction ls)
  case Nil
  then show ?case by simp
next
  case (Cons control rest)
  show ?case
  proof (cases "p \<in> set (collect doc rest)")
    case True
    from Cons.IH[OF this] show ?thesis by (metis list.set_intros(2))
  next
    case False
    with Cons.prems have "p \<in> set (visit doc control (get_at control doc))" by simp
    from visit_mem[OF this] show ?thesis by (metis list.set_intros(1))
  qed
qed

lemma rangeSliders_mem:
  assumes "c \<in> set (rangeSliders doc leftPanel)"
  shows "sel_at control_selector doc c \<and> isVisible doc c"
  using assms by (auto simp: rangeSliders_def querySelectorAll_def)

lemma enumerate_mem:
  assumes "p \<in> set (enumerateSamplerParameters doc)"
  shows "\<exists>c e cs. get_at c doc = Some (Elem e cs) \<and> control_selector (Elem e cs) \<and>
           isVisible doc c \<and> is_html e \<and> tag e = ''input'' \<and>
           closest (has_id ''openai_settings'') doc c = None \<and> p = make_sampler doc c e \<and>
           sp_id p \<noteq> [] \<and> \<not> no_text (sp_name p)"
proof -
  obtain leftPanel where
    c: "p \<in> set (collect doc (rangeSliders doc leftPanel))"
  proof (cases "getElementById ''left-nav-panel'' doc")
    case None
    with assms show ?thesis by (simp add: enumerateSamplerParameters_def)
  next
    case (Some leftPanel)
    with assms have "p \<in> set (collect doc (rangeSliders doc leftPanel))"
      by (simp add: enumerateSamplerParameters_def split: if_splits)
    with that show ?thesis by blast
  qed
  from collect_mem[OF c] obtain c e cs where
    l: "c \<in> set (rangeSliders doc leftPanel)" "get_at c doc = Some (Elem e cs)" "is_html e"
       "tag e = ''input''" "closest (has_id ''openai_settings'') doc c = None"
       "p = make_sampler doc c e" "sp_id p \<noteq> []" "\<not> no_text (sp_name p)"
    by blast
  from rangeSliders_mem[OF l(1)] l(2) have "control_selector (Elem e cs)" "isVisible doc c"
    by (simp_all add: sel_at_def)
  with l show ?thesis by blast
qed

lemma enumerate_control:
  assumes "p \<in> set (enumerateSamplerParameters doc)"
  shows "\<exists>e cs. get_at (sp_control p) doc = Some (Elem e cs) \<and>
           sp_max p = roundToPrecision (parseFloat (max_prop e)) \<and>
           sp_min p = roundToPrecision (parseFloat (min_prop e)) \<and>
           sp_value p = roundToPrecision (parseFloat (value_prop e)) \<and>
           sp_checked p = checked_prop e \<and> sp_type p = type_prop e \<and>
           sp_id p = sanitizeId (id_attr e)"
proof -
  from enumerate_mem[OF assms] obtain c e cs where
    "get_at c doc = Some (Elem e cs)" "p = make_sampler doc c e"
    by blast
  then show ?thesis
    by (auto simp: make_sampler_def)
qed

lemma enumerate_type:
  assumes "p \<in> set (enumerateSamplerParameters doc)"
  shows "sp_type p = ''range'' \<or> sp_type p = ''checkbox'' \<or> sp_type p = ''number''"
proof -
  from enumerate_mem[OF assms] obtain c e cs where
    "control_selector (Elem e cs)" "p = make_sampler doc c e"
    by blast
  then show ?thesis
    by (auto simp: make_sampler_def)
qed

lemma enumerate_name:
  assumes "p \<in> set (enumerateSamplerParameters doc)"
  shows "sp_id p \<noteq> [] \<and> (\<exists>n. sp_name p = Some n \<and> n \<noteq> [])"
proof -
  from enumerate_mem[OF assms] have "sp_id p \<noteq> []" "\<not> no_text (sp_name p)"
    by blast+
  then show ?thesis by (cases "sp_name p") simp_all
qed

lemma getElementById_None:
  "getElementById i doc = None \<longleftrightarrow> (\<forall>p \<in> set (paths [] doc). \<not> sel_at (has_id i) doc p)"
  unfolding getElementById_def find_None_iff by blast


section \<open>The lookup and the handlers\<close>

lemma parseFloat_Nil: "parseFloat [] = NaN"
  by (simp add: parseFloat_def parse_signed_def parse_decimal_def)

lemma get_at_update_at:
  "get_at q n = Some (Elem e cs) \<Longrightarrow> get_at q (update_at q f n) = Some (Elem (f e) cs)"
proof (induction q n rule: get_at.induct)
  case (1 n)
  then show ?case by simp
next
  case (2 i p s)
  then show ?case by simp
next
  case (3 i p e' cs')
  then show ?case by (simp split: if_splits)
qed

lemma find_parameter_find:
  "\<forall>p \<in> set ps. sp_name p \<noteq> None \<Longrightarrow> find_parameter name ps = Inr (find (matches name) ps)"
  by (induction ps) (auto simp: matches_def split: option.splits)

lemma find_parameter_enumerated:
  "find_parameter name (enumerateSamplerParameters doc) =
     Inr (find (matches name) (enumerateSamplerParameters doc))"
  by (rule find_parameter_find) (use enumerate_name in fastforce)

lemma no_match_for_empty:
  "p \<in> set (enumerateSamplerParameters doc) \<Longrightarrow> \<not> matches [] p"
  using enumerate_name[of p doc] by (auto simp: matches_def)

lemma find_empty_name:
  "find (matches []) (enumerateSamplerParameters doc) = None"
  by (simp add: find_None_iff no_match_for_empty)

lemma found_name_nonempty:
  "find (matches (toLowerCase (trim s))) (enumerateSamplerParameters doc) = Some p \<Longrightarrow> s \<noteq> []"
  using find_empty_name[of doc] by (auto simp: trim_def toLowerCase_def)

lemma kind_of_enumerated:
  "p \<in> set (enumerateSamplerParameters doc) \<Longrightarrow> numeric_kind p \<longleftrightarrow> sp_type p \<noteq> ''checkbox''"
  using enumerate_type[of p doc] by (auto simp: numeric_kind_def)

lemma find_mem: "find P xs = Some x \<Longrightarrow> x \<in> set xs \<and> P x"
  by (auto simp: find_Some_iff)

lemma not_finite_iff: "isNaN x \<or> \<not> isFinite x \<longleftrightarrow> \<not> isFinite x"
  by (cases x) (auto simp: isNaN_def)

lemma sampler_set_found:
  assumes "find (matches (toLowerCase (trim s))) (enumerateSamplerParameters (document st)) = Some p"
  shows "sampler_set isTrueBoolean (JStr s) val st =
     (if \<not> truthy val then (Inl (Error ''Value is required.''), st)
      else (case val of
        JStr v \<Rightarrow>
          if \<not> numeric_kind p
          then (Inr [],
                dispatchEvent (sp_control p) ''input'' True
                  (set_checked (sp_control p) (isTrueBoolean v) st))
          else if \<not> isFinite (parseFloat v)
               then (Inl (Error ''Value must be convertible to a finite number.''), st)
               else (Inr [],
                     dispatchEvent (sp_control p) ''input'' True
                       (set_value (sp_control p)
                          (numToString (Math_min (Math_max (parseFloat v) (sp_min p)) (sp_max p))) st))
      | _ \<Rightarrow> (Inl (Error ''Value must be a string.''), st)))"
proof -
  from assms have ne: "s \<noteq> []"
    by (rule found_name_nonempty)
  from find_mem[OF assms] have "p \<in> set (enumerateSamplerParameters (document st))" by simp
  from kind_of_enumerated[OF this] have k: "sp_type p = ''checkbox'' \<longleftrightarrow> \<not> numeric_kind p" by simp
  show ?thesis
    using ne assms k
    by (simp add: sampler_set_def find_parameter_enumerated not_finite_iff Let_def
             split: jsval.splits)
qed


lemma sampler_set_state:
  "fst (sampler_set isTrueBoolean name val st) = Inl e \<Longrightarrow>
   snd (sampler_set isTrueBoolean name val st) = st"
  by (auto simp: sampler_set_def Let_def split: if_splits jsval.splits sum.splits option.splits)


lemma sampler_set_numeric:
  assumes f: "find (matches (toLowerCase (trim s))) (enumerateSamplerParameters (document st)) = Some p"
    and k: "numeric_kind p"
    and v: "parseFloat v = Fin n"
  shows "\<exists>e cs. get_at (sp_control p) (document st) = Some (Elem e cs) \<and>
           fst (sampler_set isTrueBoolean (JStr s) (JStr v) st) = Inr [] \<and>
           document (snd (sampler_set isTrueBoolean (JStr s) (JStr v) st)) =
             update_at (sp_control p)
               (\<lambda>e. e\<lparr>value_prop := numToString (Math_min (Math_max (Fin n) (sp_min p)) (sp_max p))\<rparr>)
               (document st) \<and>
           get_at (sp_control p) (document (snd (sampler_set isTrueBoolean (JStr s) (JStr v) st))) =
             Some (Elem (e\<lparr>value_prop :=
                     numToString (Math_min (Math_max (Fin n) (sp_min p)) (sp_max p))\<rparr>) cs) \<and>
           dispatched (snd (sampler_set isTrueBoolean (JStr s) (JStr v) st)) =
             dispatched st @ [\<lparr>ev_target = sp_control p, ev_type = ''input'', ev_bubbles = True\<rparr>]"
proof -
  from find_mem[OF f] have "p \<in> set (enumerateSamplerParameters (document st))" by simp
  from enumerate_control[OF this] obtain e cs where
    g: "get_at (sp_control p) (document st) = Some (Elem e cs)"
    by blast
  from v have ne: "v \<noteq> []" using parseFloat_Nil by auto
  have r: "sampler_set isTrueBoolean (JStr s) (JStr v) st =
        (Inr [], dispatchEvent (sp_control p) ''input'' True
           (set_value (sp_control p)
              (numToString (Math_min (Math_max (Fin n) (sp_min p)) (sp_max p))) st))"
    using k v ne by (simp add: sampler_set_found[OF f])
  show ?thesis
    using g get_at_update_at[OF g]
    by (simp add: r dispatchEvent_def set_value_def)
qed

lemma clamp_finite:
  "Math_min (Math_max (Fin n) (Fin lo)) (Fin hi) = Fin (min (max n lo) hi)"
  by (auto simp: Math_min_def Math_max_def)

lemma replace_first_absent:
  "\<not> (\<exists>a b. s = a @ tok @ b) \<Longrightarrow> replace_first tok s = s"
proof (induction s)
  case Nil
  then show ?case by simp
next
  case (Cons c cs)
  have "take (length tok) (c # cs) \<noteq> tok"
  proof
    assume "take (length tok) (c # cs) = tok"
    then have "c # cs = [] @ tok @ drop (length tok) (c # cs)"
      by (metis append_Nil append_take_drop_id)
    with Cons.prems show False by blast
  qed
  moreover have "\<not> (\<exists>a b. cs = a @ tok @ b)"
  proof
    assume "\<exists>a b. cs = a @ tok @ b"
    then obtain a b where "cs = a @ tok @ b" by blast
    then have "c # cs = (c # a) @ tok @ b" by simp
    with Cons.prems show False by blast
  qed
  ultimately show ?case using Cons.IH by simp
qed

lemma replace_first_leftmost:
  "s = a @ tok @ b \<Longrightarrow> \<forall>a' b'. s = a' @ tok @ b' \<longrightarrow> length a \<le> length a' \<Longrightarrow>
   replace_first tok s = a @ b"
proof (induction s arbitrary: a)
  case Nil
  then show ?case by simp
next
  case (Cons c cs)
  show ?case
  proof (cases "take (length tok) (c # cs) = tok")
    case True
    then have "c # cs = [] @ tok @ drop (length tok) (c # cs)"
      by (metis append_Nil append_take_drop_id)
    with Cons.prems(2) have "a = []" by (metis le_zero_eq length_0_conv list.size(3))
    with Cons.prems(1) have "drop (length tok) (c # cs) = a @ b" by simp
    moreover from True have "replace_first tok (c # cs) = drop (length tok) (c # cs)" by simp
    ultimately show ?thesis by simp
  next
    case False
    have "a \<noteq> []"
    proof
      assume "a = []"
      with Cons.prems(1) have "take (length tok) (c # cs) = tok" by simp
      with False show False by simp
    qed
    then obtain a2 where a: "a = c # a2" and cs: "cs = a2 @ tok @ b"
      using Cons.prems(1) by (cases a) auto
    have "\<forall>a' b'. cs = a' @ tok @ b' \<longrightarrow> length a2 \<le> length a'"
    proof (intro allI impI)
      fix a' b' assume "cs = a' @ tok @ b'"
      then have "c # cs = (c # a') @ tok @ b'" by simp
      with Cons.prems(2) have "length a \<le> length (c # a')" by blast
      with a show "length a2 \<le> length a'" by simp
    qed
    from Cons.IH[OF cs this] False a show ?thesis by simp
  qed
qed

section \<open>Rounding\<close>

lemma fl_not_NaN: "fl x \<noteq> NaN"
  by (simp add: fl_def fl_exp_def fl_pack_def sign_inf_def)

lemma round_zero: "round_scaled (Fin 0) (Fin 10000) = Fin 0"
  by code_simp

lemma roundToPrecision_unparsed:
  "parseFloat (numToString num) = NaN \<Longrightarrow> roundToPrecision num = Fin 0"
  by (simp add: roundToPrecision_def or_zero_def round_zero)

lemma parse_NaN_string: "parseFloat ''NaN'' = NaN"
  by code_simp

lemma roundToPrecision_NaN: "roundToPrecision NaN = Fin 0"
  by (rule roundToPrecision_unparsed) (simp add: parse_NaN_string)

lemma js_add_not_NaN: "x \<noteq> NaN \<Longrightarrow> js_add x (Fin e) \<noteq> NaN"
  by (cases x) (simp_all add: fl_not_NaN)

lemma js_mul_not_NaN: "x \<noteq> NaN \<Longrightarrow> js_mul x (Fin 10000) \<noteq> NaN"
  by (cases x) (simp_all add: js_mul_def sign_inf_def fl_not_NaN)

lemma Math_round_not_NaN: "x \<noteq> NaN \<Longrightarrow> Math_round x \<noteq> NaN"
  by (cases x) simp_all

lemma js_div_not_NaN: "x \<noteq> NaN \<Longrightarrow> js_div x (Fin 10000) \<noteq> NaN"
  by (cases x) (simp_all add: js_div_def sign_inf_def fl_not_NaN)

lemma roundToPrecision_not_NaN: "roundToPrecision num \<noteq> NaN"
proof -
  have "or_zero (parseFloat (numToString num)) \<noteq> NaN"
    by (simp add: or_zero_def)
  then show ?thesis
    unfolding roundToPrecision_def round_scaled_def EPSILON_def
    by (intro js_div_not_NaN Math_round_not_NaN js_mul_not_NaN js_add_not_NaN)
qed

lemma roundToPrecision_parsed:
  assumes "parseFloat (numToString num) = Fin a" "a \<noteq> 0"
    and "fl (a + 1 / 2 ^ 52) = Fin b" and "fl (b * 10000) = Fin y"
  shows "roundToPrecision num = fl (of_int \<lfloor>y + 1 / 2\<rfloor> / 10000)"
  using assms
  by (simp add: roundToPrecision_def or_zero_def round_scaled_def js_div_def js_mul_def
        EPSILON_def pow2_def)

section \<open>The sample page, evaluated\<close>

lemma sample_enumeration: "enumerateSamplerParameters sample_doc = sample_params"
  by code_simp


lemma sample_excluded_eval:
  "closest (has_id ''openai_settings'') sample_doc [0, 0, 0, 7, 0, 1] \<noteq> None \<and>
   sel_at control_selector sample_doc [0, 0, 0, 7, 0, 1] \<and>
   isVisible sample_doc [0, 0, 0, 7, 0, 1]"
  by code_simp


lemma sample_document: "document sample_page = sample_doc"
  by (simp add: sample_page_def)



lemma sample_parse:
  "parseFloat ''0'' = Fin 0 \<and> parseFloat ''5'' = Fin 5 \<and> parseFloat ''abc'' = NaN"
  by code_simp




lemma sample_sanitize_eval:
  "fold replace_first strip_tokens ''my_novel_idea_novel'' = ''my_idea_novel'' \<and>
   fold replace_first strip_tokens ''temp_counter_textgenerationwebui'' = ''temp'' \<and>
   fold replace_first strip_tokens ''openai_max_tokens'' = ''max_tokens''"
  by code_simp


lemma sample_seed_eval:
  "toLowerCase (trim ''seed'') = ''seed'' \<and>
   find (matches ''seed'') sample_params = Some (sample_params ! 3) \<and>
   numeric_kind (sample_params ! 3) \<and>
   sp_min (sample_params ! 3) = Fin 0 \<and> sp_max (sample_params ! 3) = Fin 0 \<and>
   sp_control (sample_params ! 3) = [0, 0, 0, 4, 1] \<and>
   get_at [0, 0, 0, 4, 1] sample_doc = Some (slider ''seed_textgenerationwebui'' [] [] ''1'')"
  by code_simp

lemma rounding_low_eval:
  "roundToPrecision (parseFloat ''0.123449999'') = Fin (8891907104280307 / 72057594037927936)"
  by code_simp

lemma rounding_high_eval:
  "roundToPrecision (parseFloat ''0.12345'') = Fin (2224778215921025 / 18014398509481984)"
  by code_simp

lemma rounding_literals_eval:
  "parseFloat ''0.1234'' = Fin (8891907104280307 / 72057594037927936) \<and>
   parseFloat ''0.1235'' = Fin (2224778215921025 / 18014398509481984) \<and>
   numToString (Fin (8891907104280307 / 72057594037927936)) = ''0.1234'' \<and>
   numToString (Fin (2224778215921025 / 18014398509481984)) = ''0.1235''"
  by code_simp

lemma rounding_steps_eval:
  "parseFloat ''0.12345'' = Fin (2223877495995551 / 18014398509481984) \<and>
   parseFloat (numToString (Fin (2223877495995551 / 18014398509481984))) =
     Fin (2223877495995551 / 18014398509481984) \<and>
   fl (2223877495995551 / 18014398509481984 + 1 / 2 ^ 52) =
     Fin (2223877495995555 / 18014398509481984) \<and>
   fl (2223877495995555 / 18014398509481984 * 10000) = Fin (2714694208978949 / 2199023255552) \<and>
   \<lfloor>(2714694208978949 / 2199023255552 :: rat) + 1 / 2\<rfloor> = 1235 \<and>
   fl (1235 / 10000) = Fin (2224778215921025 / 18014398509481984)"
  by code_simp

section \<open>The enumerator\<close>





text \<open>
  Claim C8. A control that lies inside the settings of the other provider (the element
  itself or one of its ancestors has the id \<open>openai_settings\<close>) is not the control of any
  returned parameter, whatever its kind and visibility.
\<close>

theorem excluded_region_controls_skipped:
  assumes "closest (has_id ''openai_settings'') doc c \<noteq> None"
  shows "c \<notin> set (map sp_control (enumerateSamplerParameters doc))"
proof
  assume "c \<in> set (map sp_control (enumerateSamplerParameters doc))"
  then obtain p where p: "p \<in> set (enumerateSamplerParameters doc)" "sp_control p = c"
    by auto
  from enumerate_mem[OF p(1)] obtain c' e' cs' where
    l': "get_at c' doc = Some (Elem e' cs')"
        "closest (has_id ''openai_settings'') doc c' = None" "p = make_sampler doc c' e'"
    by blast
  from l'(3) p(2) have "c' = c" by (simp add: make_sampler_def)
  with l'(2) assms show False by simp
qed

text \<open>
  On the sample page the slider at path \<open>0.0.0.7.0.1\<close> is a visible range input inside
  \<open>openai_settings\<close>, and no parameter refers to it.
\<close>

theorem excluded_region_controls_skipped_witness:
  "closest (has_id ''openai_settings'') sample_doc [0, 0, 0, 7, 0, 1] \<noteq> None \<and>
   sel_at control_selector sample_doc [0, 0, 0, 7, 0, 1] \<and>
   isVisible sample_doc [0, 0, 0, 7, 0, 1] \<and>
   [0, 0, 0, 7, 0, 1] \<notin> set (map sp_control (enumerateSamplerParameters sample_doc))"
  using excluded_region_controls_skipped[of sample_doc "[0, 0, 0, 7, 0, 1]"] sample_excluded_eval
  by simp

text \<open>
  Claim C5. The id of a parameter is derived from the id of its control by removing, one
  token after the other in the order \<open>_counter\<close>, \<open>_textgenerationwebui\<close>, \<open>_openai\<close>,
  \<open>_novel\<close>, \<open>openai_\<close>, \<open>oai_\<close>, the leftmost occurrence of the token, wherever in the
  string it lies: a string without the token is left as it is, and a string \<open>a @ tok @ b\<close>
  in which no occurrence starts before the end of \<open>a\<close> becomes \<open>a @ b\<close>.
\<close>

theorem sanitizeId_sequential_removal:
  "sanitizeId i = fold replace_first strip_tokens i \<and>
   (\<forall>tok s. \<not> (\<exists>a b. s = a @ tok @ b) \<longrightarrow> replace_first tok s = s) \<and>
   (\<forall>tok s a b. s = a @ tok @ b \<and> (\<forall>a' b'. s = a' @ tok @ b' \<longrightarrow> length a \<le> length a') \<longrightarrow>
      replace_first tok s = a @ b)"
proof -
  have "sanitizeId i = fold replace_first strip_tokens i"
    by (simp add: sanitizeId_def strip_tokens_def)
  moreover have "\<forall>tok s. \<not> (\<exists>a b. s = a @ tok @ b) \<longrightarrow> replace_first tok s = s"
    using replace_first_absent by blast
  moreover have "\<forall>tok s a b. s = a @ tok @ b \<and>
      (\<forall>a' b'. s = a' @ tok @ b' \<longrightarrow> length a \<le> length a') \<longrightarrow> replace_first tok s = a @ b"
    using replace_first_leftmost by blast
  ultimately show ?thesis by blast
qed

text \<open>
  A token in the middle of an id is removed, and only its first occurrence; the usual
  suffixes and prefixes go as well.
\<close>

theorem sanitizeId_sequential_removal_witness:
  "sanitizeId ''my_novel_idea_novel'' = ''my_idea_novel'' \<and>
   sanitizeId ''temp_counter_textgenerationwebui'' = ''temp'' \<and>
   sanitizeId ''openai_max_tokens'' = ''max_tokens''"
  using sanitizeId_sequential_removal[of "''my_novel_idea_novel''"]
    sanitizeId_sequential_removal[of "''temp_counter_textgenerationwebui''"]
    sanitizeId_sequential_removal[of "''openai_max_tokens''"]
    sample_sanitize_eval
  by simp

section \<open>The set handler\<close>








section \<open>The get handler\<close>



section \<open>The rounding of bounds and values\<close>

text \<open>
  Claim C9. The bounds and the value of a parameter are the \<open>roundToPrecision\<close> of the
  numbers parsed from the control. For a number \<open>a\<close> other than zero, \<open>roundToPrecision\<close>
  adds \<open>Number.EPSILON\<close> (\<open>2^-52\<close>), multiplies by \<open>10^4\<close>, rounds the product \<open>y\<close> to the
  integer \<open>\<lfloor>y + 1/2\<rfloor>\<close> (a half goes up) and divides by \<open>10^4\<close>, each operation in
  binary64. In particular \<open>0.123449999\<close> rounds to the Number \<open>0.1234\<close> and \<open>0.12345\<close> to
  the Number \<open>0.1235\<close>.
\<close>

theorem roundToPrecision_four_digits_half_up:
  "roundToPrecision (parseFloat ''0.123449999'') = parseFloat ''0.1234'' \<and>
   numToString (roundToPrecision (parseFloat ''0.123449999'')) = ''0.1234'' \<and>
   roundToPrecision (parseFloat ''0.12345'') = parseFloat ''0.1235'' \<and>
   numToString (roundToPrecision (parseFloat ''0.12345'')) = ''0.1235'' \<and>
   (parseFloat (numToString num) = Fin a \<and> a \<noteq> 0 \<and>
    fl (a + 1 / 2 ^ 52) = Fin b \<and> fl (b * 10000) = Fin y \<longrightarrow>
      roundToPrecision num = fl (of_int \<lfloor>y + 1 / 2\<rfloor> / 10000)) \<and>
   (\<forall>p \<in> set (enumerateSamplerParameters doc).
      \<exists>e cs. get_at (sp_control p) doc = Some (Elem e cs) \<and>
        sp_max p = roundToPrecision (parseFloat (max_prop e)) \<and>
        sp_min p = roundToPrecision (parseFloat (min_prop e)) \<and>
        sp_value p = roundToPrecision (parseFloat (value_prop e)))"
proof -
  have "\<forall>p \<in> set (enumerateSamplerParameters doc).
      \<exists>e cs. get_at (sp_control p) doc = Some (Elem e cs) \<and>
        sp_max p = roundToPrecision (parseFloat (max_prop e)) \<and>
        sp_min p = roundToPrecision (parseFloat (min_prop e)) \<and>
        sp_value p = roundToPrecision (parseFloat (value_prop e))"
    using enumerate_control by blast
  moreover have "parseFloat (numToString num) = Fin a \<and> a \<noteq> 0 \<and>
    fl (a + 1 / 2 ^ 52) = Fin b \<and> fl (b * 10000) = Fin y \<longrightarrow>
      roundToPrecision num = fl (of_int \<lfloor>y + 1 / 2\<rfloor> / 10000)"
    using roundToPrecision_parsed by blast
  ultimately show ?thesis
    using rounding_low_eval rounding_high_eval rounding_literals_eval by simp
qed

text \<open>
  The steps for \<open>0.12345\<close>: the sum with \<open>2^-52\<close> is four units in the last place above
  it, the product is just above \<open>1234.5\<close>, the integer is \<open>1235\<close>.
\<close>

theorem roundToPrecision_four_digits_half_up_witness:
  "parseFloat (numToString (parseFloat ''0.12345'')) = Fin (2223877495995551 / 18014398509481984) \<and>
   fl (2223877495995551 / 18014398509481984 + 1 / 2 ^ 52) =
     Fin (2223877495995555 / 18014398509481984) \<and>
   fl (2223877495995555 / 18014398509481984 * 10000) = Fin (2714694208978949 / 2199023255552) \<and>
   \<lfloor>(2714694208978949 / 2199023255552 :: rat) + 1 / 2\<rfloor> = 1235 \<and>
   roundToPrecision (parseFloat ''0.12345'') = fl (1235 / 10000) \<and>
   fl (1235 / 10000) = parseFloat ''0.1235''"
  using roundToPrecision_four_digits_half_up[where num = "parseFloat ''0.12345''"
          and a = "2223877495995551 / 18014398509481984"
          and b = "2223877495995555 / 18014398509481984"
          and y = "2714694208978949 / 2199023255552"]
    rounding_steps_eval rounding_literals_eval
  by simp

text \<open>
  Claim C10. \<open>roundToPrecision\<close> is defined on every Number, never returns \<open>NaN\<close>, and
  returns \<open>0\<close> for an input that does not parse as a number. So where the \<open>max\<close>, \<open>min\<close> or
  \<open>value\<close> of a control is absent (the empty string) or does not parse, the field of the
  parameter is \<open>0\<close>; and on a numeric parameter whose bounds are both \<open>0\<close>, as without
  \<open>min\<close> and \<open>max\<close>, every value set that parses to a finite number becomes \<open>0\<close>.
\<close>

theorem unparseable_rounds_to_zero:
  "(parseFloat (numToString num) = NaN \<longrightarrow> roundToPrecision num = Fin 0) \<and>
   roundToPrecision NaN = Fin 0 \<and>
   roundToPrecision (parseFloat []) = Fin 0 \<and>
   roundToPrecision num \<noteq> NaN \<and>
   (\<forall>p \<in> set (enumerateSamplerParameters (document st)).
      \<exists>e cs. get_at (sp_control p) (document st) = Some (Elem e cs) \<and>
        (parseFloat (max_prop e) = NaN \<longrightarrow> sp_max p = Fin 0) \<and>
        (parseFloat (min_prop e) = NaN \<longrightarrow> sp_min p = Fin 0) \<and>
        (parseFloat (value_prop e) = NaN \<longrightarrow> sp_value p = Fin 0)) \<and>
   (find (matches (toLowerCase (trim s))) (enumerateSamplerParameters (document st)) = Some p \<and>
    numeric_kind p \<and> sp_min p = Fin 0 \<and> sp_max p = Fin 0 \<and> parseFloat v = Fin n \<longrightarrow>
      (\<exists>e cs. get_at (sp_control p) (document st) = Some (Elem e cs) \<and>
         fst (sampler_set isTrueBoolean (JStr s) (JStr v) st) = Inr [] \<and>
         get_at (sp_control p) (document (snd (sampler_set isTrueBoolean (JStr s) (JStr v) st))) =
           Some (Elem (e\<lparr>value_prop := ''0''\<rparr>) cs)))"
proof -
  have a: "\<forall>p \<in> set (enumerateSamplerParameters (document st)).
      \<exists>e cs. get_at (sp_control p) (document st) = Some (Elem e cs) \<and>
        (parseFloat (max_prop e) = NaN \<longrightarrow> sp_max p = Fin 0) \<and>
        (parseFloat (min_prop e) = NaN \<longrightarrow> sp_min p = Fin 0) \<and>
        (parseFloat (value_prop e) = NaN \<longrightarrow> sp_value p = Fin 0)"
  proof
    fix p assume "p \<in> set (enumerateSamplerParameters (document st))"
    from enumerate_control[OF this] obtain e cs where
      "get_at (sp_control p) (document st) = Some (Elem e cs)"
      "sp_max p = roundToPrecision (parseFloat (max_prop e))"
      "sp_min p = roundToPrecision (parseFloat (min_prop e))"
      "sp_value p = roundToPrecision (parseFloat (value_prop e))"
      by blast
    then show "\<exists>e cs. get_at (sp_control p) (document st) = Some (Elem e cs) \<and>
        (parseFloat (max_prop e) = NaN \<longrightarrow> sp_max p = Fin 0) \<and>
        (parseFloat (min_prop e) = NaN \<longrightarrow> sp_min p = Fin 0) \<and>
        (parseFloat (value_prop e) = NaN \<longrightarrow> sp_value p = Fin 0)"
      by (auto simp: roundToPrecision_NaN)
  qed
  have b: "find (matches (toLowerCase (trim s))) (enumerateSamplerParameters (document st)) = Some p \<and>
    numeric_kind p \<and> sp_min p = Fin 0 \<and> sp_max p = Fin 0 \<and> parseFloat v = Fin n \<longrightarrow>
      (\<exists>e cs. get_at (sp_control p) (document st) = Some (Elem e cs) \<and>
         fst (sampler_set isTrueBoolean (JStr s) (JStr v) st) = Inr [] \<and>
         get_at (sp_control p) (document (snd (sampler_set isTrueBoolean (JStr s) (JStr v) st))) =
           Some (Elem (e\<lparr>value_prop := ''0''\<rparr>) cs))"
  proof
    assume h: "find (matches (toLowerCase (trim s))) (enumerateSamplerParameters (document st)) = Some p \<and>
      numeric_kind p \<and> sp_min p = Fin 0 \<and> sp_max p = Fin 0 \<and> parseFloat v = Fin n"
    then have z: "numToString (Math_min (Math_max (Fin n) (sp_min p)) (sp_max p)) = ''0''"
      by (simp add: clamp_finite)
    from h sampler_set_numeric[of s st p v n isTrueBoolean] show
      "\<exists>e cs. get_at (sp_control p) (document st) = Some (Elem e cs) \<and>
         fst (sampler_set isTrueBoolean (JStr s) (JStr v) st) = Inr [] \<and>
         get_at (sp_control p) (document (snd (sampler_set isTrueBoolean (JStr s) (JStr v) st))) =
           Some (Elem (e\<lparr>value_prop := ''0''\<rparr>) cs)"
      unfolding z by blast
  qed
  show ?thesis
    using a b roundToPrecision_unparsed roundToPrecision_NaN roundToPrecision_not_NaN
    by (simp add: parseFloat_Nil)
qed

text \<open>
  On the sample page the slider \<open>seed\<close> has no bounds, its parameter has both bounds \<open>0\<close>,
  and \<open>5\<close> set on it gives the value \<open>0\<close>.
\<close>

theorem unparseable_rounds_to_zero_witness:
  "get_at [0, 0, 0, 4, 1] sample_doc = Some (slider ''seed_textgenerationwebui'' [] [] ''1'') \<and>
   sp_control (enumerateSamplerParameters sample_doc ! 3) = [0, 0, 0, 4, 1] \<and>
   sp_min (enumerateSamplerParameters sample_doc ! 3) = Fin 0 \<and>
   sp_max (enumerateSamplerParameters sample_doc ! 3) = Fin 0 \<and>
   parseFloat ''5'' = Fin 5 \<and>
   fst (sampler_set sample_isTrueBoolean (JStr ''seed'') (JStr ''5'') sample_page) = Inr [] \<and>
   get_at [0, 0, 0, 4, 1]
     (document (snd (sampler_set sample_isTrueBoolean (JStr ''seed'') (JStr ''5'') sample_page))) =
     Some (slider ''seed_textgenerationwebui'' [] [] ''0'')"
  using unparseable_rounds_to_zero[where st = sample_page and s = "''seed''"
          and p = "sample_params ! 3" and v = "''5''" and n = 5
          and isTrueBoolean = sample_isTrueBoolean]
    sample_seed_eval sample_parse
  by (auto simp: sample_document sample_enumeration slider_def)

end
